theory Spec2Isabelle
  imports Main "HOL-Library.Word"
begin

unbundle bit_operations_syntax

section \<open>Data model\<close>

text \<open>
  Go strings and byte slices are both byte sequences; they are modelled as
  \<open>string\<close> (a list of 8-bit characters). A nil slice and an empty slice are
  both the empty list.
\<close>

type_synonym bytes = string

text \<open>
  The three error numbers of package syscall that the program returns.
\<close>

datatype errno = ENOENT | EIO | ENOTSUP

section \<open>Identity assignment\<close>

text \<open>
  Package hash/fnv, 64-bit FNV-1a: the state starts at the offset basis; each
  byte written is XOR-ed into the state, which is then multiplied by the prime
  (modulo \<open>2 ^ 64\<close>).
\<close>

definition offset64 :: "64 word" where
  "offset64 = 14695981039346656037"

definition prime64 :: "64 word" where
  "prime64 = 1099511628211"

definition fnv_New64a :: "64 word" where
  "fnv_New64a = offset64"

fun fnv_Write :: "64 word \<Rightarrow> bytes \<Rightarrow> 64 word" where
  "fnv_Write h [] = h"
| "fnv_Write h (c # cs) = fnv_Write ((h XOR of_char c) * prime64) cs"

definition fnv_Sum64 :: "64 word \<Rightarrow> 64 word" where
  "fnv_Sum64 h = h"

text \<open>
  \<open>binary.MaxVarintLen64\<close> is 10. \<open>binary.LittleEndian.PutUint64 b v\<close> stores
  the eight bytes of \<open>v\<close>, least significant first, in \<open>b[0..7]\<close> and leaves
  the rest of \<open>b\<close> as it was (it panics on a shorter \<open>b\<close>; the only buffer
  it is given here has ten bytes).
\<close>

definition MaxVarintLen64 :: nat where
  "MaxVarintLen64 = 10"

definition le_bytes8 :: "64 word \<Rightarrow> bytes" where
  "le_bytes8 v = map (\<lambda>i. char_of (unat (drop_bit (8 * i) v))) [0..<8]"

definition PutUint64 :: "bytes \<Rightarrow> 64 word \<Rightarrow> bytes" where
  "PutUint64 b v = le_bytes8 v @ drop 8 b"

text \<open>
  \<open>redisFS.GenerateInode\<close>: the buffer \<open>b\<close> receives the parent identifier, but
  only the name is written to the hash.
\<close>

definition GenerateInode :: "64 word \<Rightarrow> string \<Rightarrow> 64 word" where
  "GenerateInode parentInode name =
     (let h = fnv_New64a;
          b = replicate MaxVarintLen64 (CHR 0x00);
          b = PutUint64 b parentInode;
          h = fnv_Write h name
      in fnv_Sum64 h)"

text \<open>
  The identifier scheme in the words of the specification: the FNV-1a hash of
  the eight little-endian bytes of the parent identifier followed by the bytes
  of the name.
\<close>

definition spec_inode :: "64 word \<Rightarrow> string \<Rightarrow> 64 word" where
  "spec_inode p s = fnv_Sum64 (fnv_Write fnv_New64a (le_bytes8 p @ s))"

section \<open>The store gateway\<close>

text \<open>
  The program reaches the backing store through a go-redis client. Every
  command returns a value together with an error, as \<open>Result()\<close> does in Go:
  the error is nil (\<open>None\<close>), the sentinel \<open>redis.Nil\<close>, or any other
  failure. The client and the server behind it are outside the repository, so
  the program is modelled over an arbitrary gateway: one function per command
  the program issues, each taking and returning the gateway's state \<open>'c\<close>.
\<close>

datatype rerror = RedisNil | RedisFailure

type_synonym 'a reply = "'a \<times> rerror option"

record XAddArgs =
  xa_Stream :: string
  xa_ID :: string
  xa_Values :: "(string \<times> bytes) list"

record XMessage =
  xm_ID :: string
  xm_Values :: "(string \<times> bytes) list"

record 'c gateway =
  gExists :: "string \<Rightarrow> 'c \<Rightarrow> int reply \<times> 'c"
  gType :: "string \<Rightarrow> 'c \<Rightarrow> string reply \<times> 'c"
  gKeys :: "string \<Rightarrow> 'c \<Rightarrow> string list reply \<times> 'c"
  gGet :: "string \<Rightarrow> 'c \<Rightarrow> bytes reply \<times> 'c"
  gSet :: "string \<Rightarrow> bytes \<Rightarrow> int \<Rightarrow> 'c \<Rightarrow> string reply \<times> 'c"
  gLRange :: "string \<Rightarrow> int \<Rightarrow> int \<Rightarrow> 'c \<Rightarrow> string list reply \<times> 'c"
  gXRange :: "string \<Rightarrow> string \<Rightarrow> string \<Rightarrow> 'c \<Rightarrow> XMessage list reply \<times> 'c"
  gXAdd :: "XAddArgs \<Rightarrow> 'c \<Rightarrow> string reply \<times> 'c"
  gXDel :: "string \<Rightarrow> string \<Rightarrow> 'c \<Rightarrow> int reply \<times> 'c"

section \<open>Filesystem nodes\<close>

text \<open>
  The structs \<open>redisDir\<close> and \<open>redisFile\<close>. The fields are prefixed (\<open>d_\<close>,
  \<open>f_\<close>) because both structs have a field \<open>name\<close>. The embedded
  \<open>*redisFS\<close> pointer only carries the client, which the operations below
  take as their first argument; the mutex of \<open>redisFile\<close> has no sequential
  content. A fresh struct has zero values in the fields not mentioned.
\<close>

datatype DirentType =
  DT_Unknown | DT_Socket | DT_Link | DT_File | DT_Block | DT_Dir | DT_Char | DT_FIFO

record Dirent =
  de_Inode :: "64 word"
  de_Type :: DirentType
  de_Name :: string

record redisDir =
  d_root :: bool
  d_name :: string
  d_t :: string
  d_entries :: "Dirent list"
  d_names :: "string set"

record redisFile =
  f_name :: string
  f_parent :: string
  f_size :: "64 word"
  f_rb :: bytes
  f_wb :: bytes
  f_ro :: bool

datatype node = Dir redisDir | File redisFile

definition zero_Dirent :: Dirent where
  "zero_Dirent = \<lparr>de_Inode = 0, de_Type = DT_Unknown, de_Name = []\<rparr>"

definition zero_redisDir :: redisDir where
  "zero_redisDir = \<lparr>d_root = False, d_name = [], d_t = [], d_entries = [], d_names = {}\<rparr>"

definition zero_redisFile :: redisFile where
  "zero_redisFile =
     \<lparr>f_name = [], f_parent = [], f_size = 0, f_rb = [], f_wb = [], f_ro = False\<rparr>"

text \<open>\<open>redisFS.Root\<close>\<close>

definition Root :: redisDir where
  "Root = zero_redisDir\<lparr>d_root := True\<rparr>"

section \<open>Directory operations\<close>

text \<open>
  \<open>redisDir.Lookup\<close>. The second test repeats \<open>ok != 1\<close> on the reply of the
  existence check, as the source does.
\<close>

definition Lookup :: "'c gateway \<Rightarrow> redisDir \<Rightarrow> string \<Rightarrow> 'c \<Rightarrow> (errno + node) \<times> 'c" where
  "Lookup g d name s =
     (case gExists g name s of ((ok, err), s1) \<Rightarrow>
        if err = Some RedisNil \<or> ok \<noteq> 1 then (Inl ENOENT, s1)
        else if err \<noteq> None then (Inl EIO, s1)
        else (case gType g name s1 of ((t, err), s2) \<Rightarrow>
          if err = Some RedisNil \<or> ok \<noteq> 1 then (Inl ENOENT, s2)
          else if err \<noteq> None then (Inl EIO, s2)
          else if t = ''stream''
            then (Inr (Dir (zero_redisDir\<lparr>d_name := name, d_t := ''stream''\<rparr>)), s2)
          else (Inr (File (zero_redisFile\<lparr>f_name := name\<rparr>)), s2)))"

text \<open>
  \<open>redisDir.ReadDirAll\<close>. The loop runs over the indices of \<open>keys\<close>; the slice
  \<open>entries\<close> has the length of \<open>keys\<close>, so every index it uses is in range.
\<close>

function ReadDirAll_loop ::
  "'c gateway \<Rightarrow> string list \<Rightarrow> nat \<Rightarrow> Dirent list \<Rightarrow> 'c \<Rightarrow> (errno + Dirent list) \<times> 'c" where
  "ReadDirAll_loop g keys i entries s =
     (if i < length keys then
        (let entries = entries[i := (entries ! i)\<lparr>de_Name := keys ! i\<rparr>]
         in case gType g (keys ! i) s of ((t, err), s1) \<Rightarrow>
           if err \<noteq> None then (Inl EIO, s1)
           else ReadDirAll_loop g keys (i + 1)
                  (if t = ''stream'' then entries[i := (entries ! i)\<lparr>de_Type := DT_Dir\<rparr>]
                   else if t = ''string'' then entries[i := (entries ! i)\<lparr>de_Type := DT_File\<rparr>]
                   else entries) s1)
      else (Inr entries, s))"
  by pat_completeness auto
termination
  by (relation "measure (\<lambda>(g, keys, i, entries, s). length keys - i)") auto

definition ReadDirAll :: "'c gateway \<Rightarrow> redisDir \<Rightarrow> 'c \<Rightarrow> (errno + Dirent list) \<times> 'c" where
  "ReadDirAll g d s =
     (if d_root d then
        (case gKeys g ''*'' s of ((keys, err), s1) \<Rightarrow>
           if err \<noteq> None then (Inl EIO, s1)
           else ReadDirAll_loop g keys 0 (replicate (length keys) zero_Dirent) s1)
      else (Inr [], s))"

text \<open>
  \<open>redisDir.Create\<close>: the new file's parent is the directory's name, which is
  empty for the root. \<open>OpenDirectIO\<close> is bit 0 of the response flags.
\<close>

definition OpenDirectIO :: "32 word" where
  "OpenDirectIO = 1"

definition Create :: "redisDir \<Rightarrow> string \<Rightarrow> 32 word \<Rightarrow> redisFile \<times> 32 word" where
  "Create d req_Name resp_Flags =
     (zero_redisFile\<lparr>f_parent := d_name d, f_name := req_Name\<rparr>, resp_Flags OR OpenDirectIO)"

text \<open>\<open>redisDir.Mkdir\<close>\<close>

definition Mkdir :: "'c gateway \<Rightarrow> redisDir \<Rightarrow> string \<Rightarrow> 'c \<Rightarrow> (errno + node) \<times> 'c" where
  "Mkdir g d req_Name s =
     (let xAddArgs = \<lparr>xa_Stream = req_Name, xa_ID = ''0-1'', xa_Values = [(''blob'', ''dummy'')]\<rparr>
      in case gXAdd g xAddArgs s of ((_, err), s1) \<Rightarrow>
        if err \<noteq> None then (Inl EIO, s1)
        else (case gXDel g (xa_Stream xAddArgs) (xa_ID xAddArgs) s1 of ((_, err), s2) \<Rightarrow>
          if err \<noteq> None then (Inl EIO, s2)
          else (Inr (Dir (zero_redisDir\<lparr>d_name := req_Name, d_t := ''stream''\<rparr>)), s2)))"

section \<open>File operations\<close>

text \<open>
  \<open>redisFile.Open\<close>. \<open>OpenFlags.IsReadOnly\<close> compares the access mode (the two
  low bits of the flags) with \<open>O_RDONLY\<close>, which is 0. The assignment under
  the test stores \<open>false\<close>.
\<close>

record OpenRequest =
  or_Dir :: bool
  or_Flags :: "32 word"

definition IsReadOnly :: "32 word \<Rightarrow> bool" where
  "IsReadOnly fl = (fl AND 3 = 0)"

definition Open :: "redisFile \<Rightarrow> OpenRequest \<Rightarrow> 32 word \<Rightarrow> redisFile \<times> 32 word" where
  "Open f req resp_Flags =
     ((if IsReadOnly (or_Flags req) \<and> \<not> or_Dir req then f\<lparr>f_ro := False\<rparr> else f),
      resp_Flags OR OpenDirectIO)"

text \<open>\<open>redisFile.Write\<close>: returns the file and \<open>resp.Size\<close>.\<close>

definition Write :: "redisFile \<Rightarrow> bytes \<Rightarrow> redisFile \<times> nat" where
  "Write f req_Data = (f\<lparr>f_wb := f_wb f @ req_Data\<rparr>, length req_Data)"

text \<open>\<open>redisFile.Flush\<close>: returns the error (nil is \<open>None\<close>) and the file.\<close>

definition Flush :: "'c gateway \<Rightarrow> redisFile \<Rightarrow> 'c \<Rightarrow> (errno option \<times> redisFile) \<times> 'c" where
  "Flush g f s =
     (if f_ro f then ((None, f), s)
      else if f_parent f \<noteq> [] then
        (let xAddArgs = \<lparr>xa_Stream = f_parent f, xa_ID = f_name f @ ''-0'',
                          xa_Values = [(''blob'', f_wb f)]\<rparr>
         in case gXAdd g xAddArgs s of ((_, err), s1) \<Rightarrow>
           if err \<noteq> None then ((Some EIO, f), s1)
           else ((None, f\<lparr>f_wb := []\<rparr>), s1))
      else
        (case gSet g (f_name f) (f_wb f) 0 s of ((_, err), s1) \<Rightarrow>
           if err \<noteq> None then ((Some EIO, f), s1)
           else ((None, f\<lparr>f_wb := []\<rparr>), s1)))"

text \<open>
  \<open>redisFile.reloadFile\<close>. The loop of the list case appends each element and,
  except after the last index, a newline. \<open>reloadFile_end\<close> is the code after
  the switch. \<open>json.Marshal\<close> belongs to the Go library and is a parameter.
\<close>

definition newline :: char where
  "newline = CHR 0x0A"

function list_loop :: "string list \<Rightarrow> nat \<Rightarrow> bytes \<Rightarrow> bytes" where
  "list_loop values i b =
     (if i < length values then
        (let b = b @ values ! i;
             b = (if int i \<noteq> int (length values) - 1 then b @ [newline] else b)
         in list_loop values (i + 1) b)
      else b)"
  by pat_completeness auto
termination
  by (relation "measure (\<lambda>(values, i, b). length values - i)") auto

definition reloadFile_end ::
  "redisFile \<Rightarrow> bytes \<Rightarrow> rerror option \<Rightarrow> errno option \<times> redisFile" where
  "reloadFile_end f b err =
     (if err = Some RedisNil then (Some ENOENT, f)
      else if err \<noteq> None then (Some EIO, f)
      else (None, f\<lparr>f_rb := b, f_size := of_nat (length b)\<rparr>))"

definition reloadFile ::
  "'c gateway \<Rightarrow> (XMessage list \<Rightarrow> bytes reply) \<Rightarrow> redisFile \<Rightarrow> 'c
     \<Rightarrow> (errno option \<times> redisFile) \<times> 'c" where
  "reloadFile g json_Marshal f s =
     (case gType g (f_name f) s of ((t, err), s1) \<Rightarrow>
        if err = Some RedisNil then ((Some ENOENT, f), s1)
        else if err \<noteq> None then ((Some EIO, f), s1)
        else if t = ''string'' then
          (case gGet g (f_name f) s1 of ((b, err), s2) \<Rightarrow> (reloadFile_end f b err, s2))
        else if t = ''list'' then
          (case gLRange g (f_name f) 0 (- 1) s1 of ((values, err), s2) \<Rightarrow>
             if err \<noteq> None then (reloadFile_end f [] err, s2)
             else (reloadFile_end f (list_loop values 0 []) err, s2))
        else if t = ''stream'' then
          (case gXRange g (f_name f) ''-'' ''+'' s1 of ((resp, err), s2) \<Rightarrow>
             if err \<noteq> None then (reloadFile_end f [] err, s2)
             else (case json_Marshal resp of (b, err) \<Rightarrow> (reloadFile_end f b err, s2)))
        else ((Some ENOTSUP, f), s1))"

text \<open>\<open>redisFile.ReadAll\<close>\<close>

definition ReadAll ::
  "'c gateway \<Rightarrow> (XMessage list \<Rightarrow> bytes reply) \<Rightarrow> redisFile \<Rightarrow> 'c
     \<Rightarrow> ((errno + bytes) \<times> redisFile) \<times> 'c" where
  "ReadAll g json_Marshal f s =
     (case reloadFile g json_Marshal f s of ((err, f1), s1) \<Rightarrow>
        (case err of Some e \<Rightarrow> ((Inl e, f1), s1) | None \<Rightarrow> ((Inr (f_rb f1), f1), s1)))"

section \<open>Observing the commands a gateway receives\<close>

text \<open>
  To state which commands an operation issues, a gateway is wrapped so that it
  records every command it receives, in order, next to its own state, and
  otherwise answers as before.
\<close>

datatype command =
  CExists string
| CType string
| CKeys string
| CGet string
| CSet string bytes int
| CLRange string int int
| CXRange string string string
| CXAdd XAddArgs
| CXDel string string

fun target :: "command \<Rightarrow> string" where
  "target (CExists k) = k"
| "target (CType k) = k"
| "target (CKeys p) = p"
| "target (CGet k) = k"
| "target (CSet k v e) = k"
| "target (CLRange k a b) = k"
| "target (CXRange k a b) = k"
| "target (CXAdd a) = xa_Stream a"
| "target (CXDel k i) = k"

definition record_cmd :: "command \<Rightarrow> 'r \<times> 'c \<Rightarrow> command list \<Rightarrow> 'r \<times> 'c \<times> command list" where
  "record_cmd c out log = (fst out, snd out, log @ [c])"

definition tracing :: "'c gateway \<Rightarrow> ('c \<times> command list) gateway" where
  "tracing g =
     \<lparr>gExists = (\<lambda>k sl. record_cmd (CExists k) (gExists g k (fst sl)) (snd sl)),
      gType = (\<lambda>k sl. record_cmd (CType k) (gType g k (fst sl)) (snd sl)),
      gKeys = (\<lambda>p sl. record_cmd (CKeys p) (gKeys g p (fst sl)) (snd sl)),
      gGet = (\<lambda>k sl. record_cmd (CGet k) (gGet g k (fst sl)) (snd sl)),
      gSet = (\<lambda>k v e sl. record_cmd (CSet k v e) (gSet g k v e (fst sl)) (snd sl)),
      gLRange = (\<lambda>k a b sl. record_cmd (CLRange k a b) (gLRange g k a b (fst sl)) (snd sl)),
      gXRange = (\<lambda>k a b sl. record_cmd (CXRange k a b) (gXRange g k a b (fst sl)) (snd sl)),
      gXAdd = (\<lambda>a sl. record_cmd (CXAdd a) (gXAdd g a (fst sl)) (snd sl)),
      gXDel = (\<lambda>k i sl. record_cmd (CXDel k i) (gXDel g k i (fst sl)) (snd sl))\<rparr>"

section \<open>A reference store\<close>

text \<open>
  An in-memory model of the backing store, standing for the Redis server and
  the client library, neither of which is part of the repository. It
  follows the documented behaviour of the nine commands on the arguments the
  program sends:
  \<^item> EXISTS answers 1 or 0; TYPE answers "none" for a missing key, without
    error; GET answers \<open>redis.Nil\<close> for a missing key and fails on a key that
    is not a string; SET overwrites a key of any type; KEYS "*" lists every key;
  \<^item> LRANGE and XRANGE answer the empty list for a missing key and fail on a
    key of another type;
  \<^item> a stream identifier is \<open>ms-seq\<close>, two decimal numbers; XADD creates the
    stream if needed and fails unless the identifier is well formed and greater
    than the last identifier the stream has generated (0-0 at first); XDEL
    removes the entry with that identifier, if any, and leaves the stream in
    place, also when it becomes empty.
  The expiry argument of SET is ignored (the program always sends 0). A KEYS
  pattern other than "*" and an XRANGE other than from "-" to "+" are never
  sent and are answered with a failure.
  A connection can fail at any command: \<open>faults\<close> is consumed one element
  per command, and \<open>True\<close> makes that command fail without effect, returning
  the zero value and an error other than \<open>redis.Nil\<close>.
\<close>

datatype rvalue =
  VString bytes
| VList "bytes list"
| VStream "XMessage list" "int \<times> int"
| VOther string

record store =
  kv :: "(string \<times> rvalue) list"
  faults :: "bool list"

fun put :: "string \<Rightarrow> rvalue \<Rightarrow> (string \<times> rvalue) list \<Rightarrow> (string \<times> rvalue) list" where
  "put k v [] = [(k, v)]"
| "put k v (p # ps) = (if fst p = k then (k, v) # ps else p # put k v ps)"

definition attempt :: "'a \<Rightarrow> (store \<Rightarrow> 'a reply \<times> store) \<Rightarrow> store \<Rightarrow> 'a reply \<times> store" where
  "attempt zero run st =
     (case faults st of
        [] \<Rightarrow> run st
      | b # bs \<Rightarrow>
          if b then ((zero, Some RedisFailure), st\<lparr>faults := bs\<rparr>)
          else run (st\<lparr>faults := bs\<rparr>))"

definition is_digit :: "char \<Rightarrow> bool" where
  "is_digit c = (48 \<le> (of_char c :: int) \<and> (of_char c :: int) \<le> 57)"

definition parse_dec :: "string \<Rightarrow> int option" where
  "parse_dec cs =
     (if cs \<noteq> [] \<and> list_all is_digit cs
      then Some (foldl (\<lambda>n c. 10 * n + (of_char c - 48)) 0 cs)
      else None)"

definition parse_id :: "string \<Rightarrow> (int \<times> int) option" where
  "parse_id cs =
     (case (parse_dec (takeWhile (\<lambda>c. c \<noteq> CHR ''-'') cs),
            parse_dec (drop 1 (dropWhile (\<lambda>c. c \<noteq> CHR ''-'') cs))) of
        (Some ms, Some sq) \<Rightarrow> if ms < 2 ^ 64 \<and> sq < 2 ^ 64 then Some (ms, sq) else None
      | _ \<Rightarrow> None)"

definition id_less :: "int \<times> int \<Rightarrow> int \<times> int \<Rightarrow> bool" where
  "id_less a b = (fst a < fst b \<or> (fst a = fst b \<and> snd a < snd b))"

definition type_name :: "rvalue option \<Rightarrow> string" where
  "type_name v =
     (case v of
        None \<Rightarrow> ''none''
      | Some (VString b) \<Rightarrow> ''string''
      | Some (VList xs) \<Rightarrow> ''list''
      | Some (VStream ms l) \<Rightarrow> ''stream''
      | Some (VOther t) \<Rightarrow> t)"

definition lrange :: "bytes list \<Rightarrow> int \<Rightarrow> int \<Rightarrow> bytes list" where
  "lrange xs start stop =
     (let n = int (length xs);
          a = (if start < 0 then max 0 (n + start) else start);
          b = (if stop < 0 then n + stop else min stop (n - 1))
      in if a > b then [] else take (nat (b - a + 1)) (drop (nat a) xs))"

definition xadd :: "XAddArgs \<Rightarrow> store \<Rightarrow> string reply \<times> store" where
  "xadd a st =
     (case parse_id (xa_ID a) of
        None \<Rightarrow> (([], Some RedisFailure), st)
      | Some i \<Rightarrow>
          (case map_of (kv st) (xa_Stream a) of
             None \<Rightarrow>
               if id_less (0, 0) i
               then ((xa_ID a, None),
                     st\<lparr>kv := put (xa_Stream a)
                       (VStream [\<lparr>xm_ID = xa_ID a, xm_Values = xa_Values a\<rparr>] i) (kv st)\<rparr>)
               else (([], Some RedisFailure), st)
           | Some (VStream ms l) \<Rightarrow>
               if id_less l i
               then ((xa_ID a, None),
                     st\<lparr>kv := put (xa_Stream a)
                       (VStream (ms @ [\<lparr>xm_ID = xa_ID a, xm_Values = xa_Values a\<rparr>]) i) (kv st)\<rparr>)
               else (([], Some RedisFailure), st)
           | Some _ \<Rightarrow> (([], Some RedisFailure), st)))"

definition xdel :: "string \<Rightarrow> string \<Rightarrow> store \<Rightarrow> int reply \<times> store" where
  "xdel k i st =
     (case parse_id i of
        None \<Rightarrow> ((0, Some RedisFailure), st)
      | Some j \<Rightarrow>
          (case map_of (kv st) k of
             None \<Rightarrow> ((0, None), st)
           | Some (VStream ms l) \<Rightarrow>
               ((int (length (filter (\<lambda>m. parse_id (xm_ID m) = Some j) ms)), None),
                st\<lparr>kv := put k (VStream (filter (\<lambda>m. parse_id (xm_ID m) \<noteq> Some j) ms) l) (kv st)\<rparr>)
           | Some _ \<Rightarrow> ((0, Some RedisFailure), st)))"

definition refStore :: "store gateway" where
  "refStore =
     \<lparr>gExists = (\<lambda>k. attempt 0
        (\<lambda>st. ((if map_of (kv st) k = None then 0 else 1, None), st))),
      gType = (\<lambda>k. attempt []
        (\<lambda>st. ((type_name (map_of (kv st) k), None), st))),
      gKeys = (\<lambda>p. attempt []
        (\<lambda>st. if p = ''*'' then ((map fst (kv st), None), st)
              else (([], Some RedisFailure), st))),
      gGet = (\<lambda>k. attempt []
        (\<lambda>st. case map_of (kv st) k of
                None \<Rightarrow> (([], Some RedisNil), st)
              | Some (VString b) \<Rightarrow> ((b, None), st)
              | Some _ \<Rightarrow> (([], Some RedisFailure), st))),
      gSet = (\<lambda>k v e. attempt []
        (\<lambda>st. ((''OK'', None), st\<lparr>kv := put k (VString v) (kv st)\<rparr>))),
      gLRange = (\<lambda>k a b. attempt []
        (\<lambda>st. case map_of (kv st) k of
                None \<Rightarrow> (([], None), st)
              | Some (VList xs) \<Rightarrow> ((lrange xs a b, None), st)
              | Some _ \<Rightarrow> (([], Some RedisFailure), st))),
      gXRange = (\<lambda>k a b. attempt []
        (\<lambda>st. case map_of (kv st) k of
                None \<Rightarrow> (([], None), st)
              | Some (VStream ms l) \<Rightarrow>
                  if a = ''-'' \<and> b = ''+'' then ((ms, None), st)
                  else (([], Some RedisFailure), st)
              | Some _ \<Rightarrow> (([], Some RedisFailure), st))),
      gXAdd = (\<lambda>a. attempt [] (xadd a)),
      gXDel = (\<lambda>k i. attempt 0 (xdel k i))\<rparr>"

text \<open>
  A sequence of write calls on one file, and a stand-in for \<open>json.Marshal\<close>
  for the evaluations below (none of them reads a stream).
\<close>

definition writes :: "redisFile \<Rightarrow> bytes list \<Rightarrow> redisFile" where
  "writes f ws = fold (\<lambda>w f. fst (Write f w)) ws f"

definition no_json :: "XMessage list \<Rightarrow> bytes reply" where
  "no_json resp = ([], Some RedisFailure)"

text \<open>
  The list encoding in the words of the specification: the elements joined by
  one newline between consecutive elements, with no newline after the last.
\<close>

fun join_nl :: "bytes list \<Rightarrow> bytes" where
  "join_nl [] = []"
| "join_nl [x] = x"
| "join_nl (x # y # ys) = x @ [newline] @ join_nl (y # ys)"

section \<open>Theorems\<close>

declare list_loop.simps [simp del]
declare ReadDirAll_loop.simps [simp del]

subsection \<open>Identity assignment\<close>

lemma GenerateInode_name_only:
  "GenerateInode p s = fnv_Write offset64 s"
  by (simp add: GenerateInode_def fnv_New64a_def fnv_Sum64_def Let_def)

text \<open>
  C2 (the code departs from the claim). The claim: the identifier is the FNV-1a
  hash of the eight little-endian bytes of the parent followed by the name, so
  the same name under different parents normally gets different identifiers.
  The code hashes the name only, so the identifier never depends on the parent:
  for the parents 1 and 2 and the name "a" it returns the same identifier, the
  hash of "a" alone, where the scheme of the claim prescribes two other,
  different, identifiers.
\<close>

theorem GenerateInode_ignores_parent:
  "(\<forall>p q s. GenerateInode p s = GenerateInode q s)
   \<and> GenerateInode 1 ''a'' = 0xAF63DC4C8601EC8C
   \<and> GenerateInode 2 ''a'' = 0xAF63DC4C8601EC8C
   \<and> spec_inode 1 ''a'' = 5952155467226901439
   \<and> spec_inode 2 ''a'' = 925925084089464658"
proof -
  have "GenerateInode 1 ''a'' = 0xAF63DC4C8601EC8C
     \<and> GenerateInode 2 ''a'' = 0xAF63DC4C8601EC8C
     \<and> spec_inode 1 ''a'' = 5952155467226901439
     \<and> spec_inode 2 ''a'' = 925925084089464658"
    by code_simp
  then show ?thesis
    by (simp add: GenerateInode_name_only)
qed

subsection \<open>What the recording gateway returns\<close>

lemma tracing_XAdd:
  "gXAdd (tracing g) a sl = (fst (gXAdd g a (fst sl)), snd (gXAdd g a (fst sl)), snd sl @ [CXAdd a])"
  by (simp add: tracing_def record_cmd_def)

lemma tracing_XDel:
  "gXDel (tracing g) k i sl = (fst (gXDel g k i (fst sl)), snd (gXDel g k i (fst sl)), snd sl @ [CXDel k i])"
  by (simp add: tracing_def record_cmd_def)

lemma tracing_Set:
  "gSet (tracing g) k v e sl = (fst (gSet g k v e (fst sl)), snd (gSet g k v e (fst sl)), snd sl @ [CSet k v e])"
  by (simp add: tracing_def record_cmd_def)

lemma Mkdir_tracing:
  assumes "gXAdd g \<lparr>xa_Stream = nm, xa_ID = ''0-1'', xa_Values = [(''blob'', ''dummy'')]\<rparr> s = ((r1, e1), s1)"
      and "gXDel g nm ''0-1'' s1 = ((r2, e2), s2)"
  shows "Mkdir (tracing g) d nm (s, []) =
     (if e1 \<noteq> None then
        (Inl EIO, s1,
         [CXAdd \<lparr>xa_Stream = nm, xa_ID = ''0-1'', xa_Values = [(''blob'', ''dummy'')]\<rparr>])
      else if e2 \<noteq> None then
        (Inl EIO, s2,
         [CXAdd \<lparr>xa_Stream = nm, xa_ID = ''0-1'', xa_Values = [(''blob'', ''dummy'')]\<rparr>,
          CXDel nm ''0-1''])
      else
        (Inr (Dir \<lparr>d_root = False, d_name = nm, d_t = ''stream'', d_entries = [], d_names = {}\<rparr>),
         s2,
         [CXAdd \<lparr>xa_Stream = nm, xa_ID = ''0-1'', xa_Values = [(''blob'', ''dummy'')]\<rparr>,
          CXDel nm ''0-1'']))"
  using assms by (simp add: Mkdir_def tracing_XAdd tracing_XDel zero_redisDir_def)

lemma Mkdir_trace:
  "snd (snd (Mkdir (tracing g) d nm (s, []))) =
     [CXAdd \<lparr>xa_Stream = nm, xa_ID = ''0-1'', xa_Values = [(''blob'', ''dummy'')]\<rparr>]
   \<or> snd (snd (Mkdir (tracing g) d nm (s, []))) =
     [CXAdd \<lparr>xa_Stream = nm, xa_ID = ''0-1'', xa_Values = [(''blob'', ''dummy'')]\<rparr>,
      CXDel nm ''0-1'']"
proof -
  obtain r1 e1 s1 where a:
    "gXAdd g \<lparr>xa_Stream = nm, xa_ID = ''0-1'', xa_Values = [(''blob'', ''dummy'')]\<rparr> s = ((r1, e1), s1)"
    by (metis surj_pair)
  obtain r2 e2 s2 where b: "gXDel g nm ''0-1'' s1 = ((r2, e2), s2)"
    by (metis surj_pair)
  show ?thesis
    by (simp add: Mkdir_tracing [OF a b])
qed

lemma Mkdir_any_dir: "Mkdir g d nm s = Mkdir g d' nm s"
  by (simp add: Mkdir_def)

subsection \<open>Lookup\<close>

text \<open>
  C4 (the code departs from the claim). The claim: lookup answers not-found
  exactly when the key is absent, and every other gateway failure, a failing
  existence check included, is an I/O failure. A command that fails returns
  the zero value with its error, so a failed existence check returns 0 and the
  test \<open>ok != 1\<close> answers \<open>ENOENT\<close> before the error is looked at. Here the key
  "a" exists and the connection fails at the existence check.
\<close>

theorem Lookup_failed_Exists_is_ENOENT:
  "gExists refStore ''a'' \<lparr>kv = [(''a'', VString ''x'')], faults = [True]\<rparr> =
     ((0, Some RedisFailure), \<lparr>kv = [(''a'', VString ''x'')], faults = []\<rparr>)
   \<and> Lookup refStore Root ''a'' \<lparr>kv = [(''a'', VString ''x'')], faults = [True]\<rparr> =
     (Inl ENOENT, \<lparr>kv = [(''a'', VString ''x'')], faults = []\<rparr>)"
  by code_simp

text \<open>
  C8. If a key exists and the store reports for it a type other than "string",
  "list" and "stream", lookup succeeds with a file node for it, and reloading or
  reading that node (the store still reporting that type) fails with
  \<open>ENOTSUP\<close>. No lookup, on any gateway, fails with \<open>ENOTSUP\<close>.
\<close>

theorem unsupported_type_fails_in_reload_only:
  assumes "gExists g nm s = ((1, None), s1)"
      and "gType g nm s1 = ((t, None), s2)"
      and "t \<notin> {''string'', ''list'', ''stream''}"
      and "gType g nm s2 = ((t, None), s3)"
  shows "Lookup g d nm s = (Inr (File (zero_redisFile\<lparr>f_name := nm\<rparr>)), s2)
     \<and> reloadFile g jm (zero_redisFile\<lparr>f_name := nm\<rparr>) s2 =
         ((Some ENOTSUP, zero_redisFile\<lparr>f_name := nm\<rparr>), s3)
     \<and> ReadAll g jm (zero_redisFile\<lparr>f_name := nm\<rparr>) s2 =
         ((Inl ENOTSUP, zero_redisFile\<lparr>f_name := nm\<rparr>), s3)
     \<and> (\<forall>(g' :: 'c gateway) d' nm' s'. fst (Lookup g' d' nm' s') \<noteq> Inl ENOTSUP)"
proof -
  have "fst (Lookup g' d' nm' s') \<noteq> Inl ENOTSUP" for g' :: "'c gateway" and d' nm' s'
    by (simp add: Lookup_def split: prod.splits)
  then show ?thesis
    using assms by (simp add: Lookup_def ReadAll_def reloadFile_def)
qed

theorem unsupported_type_fails_in_reload_only_witness:
  "Lookup refStore Root ''h'' \<lparr>kv = [(''h'', VOther ''hash'')], faults = []\<rparr> =
     (Inr (File \<lparr>f_name = ''h'', f_parent = [], f_size = 0, f_rb = [], f_wb = [], f_ro = False\<rparr>),
      \<lparr>kv = [(''h'', VOther ''hash'')], faults = []\<rparr>)
   \<and> ReadAll refStore no_json
        \<lparr>f_name = ''h'', f_parent = [], f_size = 0, f_rb = [], f_wb = [], f_ro = False\<rparr>
        \<lparr>kv = [(''h'', VOther ''hash'')], faults = []\<rparr> =
     ((Inl ENOTSUP, \<lparr>f_name = ''h'', f_parent = [], f_size = 0, f_rb = [], f_wb = [], f_ro = False\<rparr>),
      \<lparr>kv = [(''h'', VOther ''hash'')], faults = []\<rparr>)"
proof -
  let ?st = "\<lparr>kv = [(''h'', VOther ''hash'')], faults = []\<rparr>"
  have e: "gExists refStore ''h'' ?st = ((1, None), ?st)"
    by code_simp
  have t: "gType refStore ''h'' ?st = ((''hash'', None), ?st)"
    by code_simp
  have n: "''hash'' \<notin> {''string'', ''list'', ''stream''}"
    by simp
  show ?thesis
    using unsupported_type_fails_in_reload_only [OF e t n t, of Root no_json]
    by (auto simp: zero_redisFile_def)
qed

subsection \<open>Root enumeration\<close>

text \<open>
  C5, as stated, fails. The claim: root enumeration reports stream keys as
  directory entries and string keys as file entries, and omits a key of any
  other type. For the keys "a" (string), "s" (stream) and "l" (list) the
  listing has three entries: "l" is listed, with the entry type unknown.
\<close>

theorem ReadDirAll_lists_other_types:
  "ReadDirAll refStore Root
     \<lparr>kv = [(''a'', VString ''x''), (''s'', VStream [] (0, 1)), (''l'', VList [''e''])],
      faults = []\<rparr> =
     (Inr [\<lparr>de_Inode = 0, de_Type = DT_File, de_Name = ''a''\<rparr>,
           \<lparr>de_Inode = 0, de_Type = DT_Dir, de_Name = ''s''\<rparr>,
           \<lparr>de_Inode = 0, de_Type = DT_Unknown, de_Name = ''l''\<rparr>],
      \<lparr>kv = [(''a'', VString ''x''), (''s'', VStream [] (0, 1)), (''l'', VList [''e''])],
       faults = []\<rparr>)"
  by code_simp

lemma ReadDirAll_loop_quiet:
  assumes ty: "\<forall>k \<in> set keys. gType g k s = ((ty k, None), s)"
  shows "i \<le> length keys \<Longrightarrow> length es = length keys
     \<Longrightarrow> (\<forall>j. i \<le> j \<and> j < length keys \<longrightarrow> es ! j = zero_Dirent)
     \<Longrightarrow> ReadDirAll_loop g keys i es s =
         (Inr (take i es @
               map (\<lambda>k. \<lparr>de_Inode = 0,
                          de_Type = (if ty k = ''stream'' then DT_Dir
                                     else if ty k = ''string'' then DT_File else DT_Unknown),
                          de_Name = k\<rparr>) (drop i keys)), s)"
proof (induction "length keys - i" arbitrary: i es)
  case 0
  then show ?case
    by (subst ReadDirAll_loop.simps) simp
next
  case (Suc n)
  let ?E = "\<lambda>k. \<lparr>de_Inode = 0,
                   de_Type = (if ty k = ''stream'' then DT_Dir
                              else if ty k = ''string'' then DT_File else DT_Unknown),
                   de_Name = k\<rparr>"
  from Suc.hyps(2) have i: "i < length keys" and n: "n = length keys - Suc i"
    by simp_all
  have q: "gType g (keys ! i) s = ((ty (keys ! i), None), s)"
    using ty i by simp
  have z: "es ! i = zero_Dirent"
    using Suc.prems(3) i by simp
  let ?es = "es[i := ?E (keys ! i)]"
  have step: "ReadDirAll_loop g keys i es s = ReadDirAll_loop g keys (Suc i) ?es s"
    using i q z Suc.prems(2) by (subst ReadDirAll_loop.simps) (simp add: Let_def zero_Dirent_def)
  have "ReadDirAll_loop g keys (Suc i) ?es s =
          (Inr (take (Suc i) ?es @ map ?E (drop (Suc i) keys)), s)"
    using Suc.hyps(1) [OF n, of ?es] i Suc.prems by simp
  moreover have "take (Suc i) ?es = take i es @ [?E (keys ! i)]"
    using i Suc.prems(2) by (simp add: take_Suc_conv_app_nth)
  moreover have "drop i keys = keys ! i # drop (Suc i) keys"
    using i by (simp add: Cons_nth_drop_Suc)
  ultimately show ?case
    using step by simp
qed

text \<open>
  C5, amended. If the key enumeration succeeds and the type query succeeds for
  every key (the store being left as it is by the queries), root enumeration
  returns one entry per key, in the order of the keys and under the key's name:
  a directory entry for a stream key, a file entry for a string key, and an
  entry of unknown type for a key of any other type.
\<close>

theorem ReadDirAll_root_lists_every_key:
  assumes "d_root d"
      and "gKeys g ''*'' s = ((keys, None), s1)"
      and "\<forall>k \<in> set keys. gType g k s1 = ((ty k, None), s1)"
  shows "ReadDirAll g d s =
     (Inr (map (\<lambda>k. \<lparr>de_Inode = 0,
                      de_Type = (if ty k = ''stream'' then DT_Dir
                                 else if ty k = ''string'' then DT_File else DT_Unknown),
                      de_Name = k\<rparr>) keys), s1)"
  using assms(1,2) ReadDirAll_loop_quiet [OF assms(3), of 0 "replicate (length keys) zero_Dirent"]
  by (simp add: ReadDirAll_def)

theorem ReadDirAll_root_lists_every_key_witness:
  "ReadDirAll refStore Root
     \<lparr>kv = [(''a'', VString ''x''), (''s'', VStream [] (0, 1)), (''l'', VList [''e''])],
      faults = []\<rparr> =
     (Inr [\<lparr>de_Inode = 0, de_Type = DT_File, de_Name = ''a''\<rparr>,
           \<lparr>de_Inode = 0, de_Type = DT_Dir, de_Name = ''s''\<rparr>,
           \<lparr>de_Inode = 0, de_Type = DT_Unknown, de_Name = ''l''\<rparr>],
      \<lparr>kv = [(''a'', VString ''x''), (''s'', VStream [] (0, 1)), (''l'', VList [''e''])],
       faults = []\<rparr>)"
proof -
  let ?st = "\<lparr>kv = [(''a'', VString ''x''), (''s'', VStream [] (0, 1)), (''l'', VList [''e''])],
              faults = []\<rparr>"
  let ?ty = "\<lambda>k. type_name (map_of (kv ?st) k)"
  have r: "d_root Root"
    by (simp add: Root_def)
  have k: "gKeys refStore ''*'' ?st = (([''a'', ''s'', ''l''], None), ?st)"
    by code_simp
  have t: "\<forall>k \<in> set [''a'', ''s'', ''l'']. gType refStore k ?st = ((?ty k, None), ?st)"
    by (simp add: refStore_def attempt_def)
  show ?thesis
    using ReadDirAll_root_lists_every_key [OF r k t] by (simp add: type_name_def)
qed

subsection \<open>Creating a stream directory\<close>

text \<open>
  C9. Creating a stream directory first appends one entry with the identifier
  "0-1" and the field "blob" = "dummy" to the stream named as requested. If the
  append fails the result is \<open>EIO\<close> and nothing else is issued. Otherwise it
  deletes the entry "0-1" of that stream; if the delete fails the result is
  \<open>EIO\<close> and nothing else is issued, so the append is not rolled back. If both
  succeed the result is a directory node that is not the root, has the
  requested name and the type "stream".
\<close>

theorem Mkdir_protocol:
  assumes "gXAdd g \<lparr>xa_Stream = nm, xa_ID = ''0-1'', xa_Values = [(''blob'', ''dummy'')]\<rparr> s = ((r1, e1), s1)"
      and "gXDel g nm ''0-1'' s1 = ((r2, e2), s2)"
  shows "Mkdir (tracing g) d nm (s, []) =
     (if e1 \<noteq> None then
        (Inl EIO, s1,
         [CXAdd \<lparr>xa_Stream = nm, xa_ID = ''0-1'', xa_Values = [(''blob'', ''dummy'')]\<rparr>])
      else if e2 \<noteq> None then
        (Inl EIO, s2,
         [CXAdd \<lparr>xa_Stream = nm, xa_ID = ''0-1'', xa_Values = [(''blob'', ''dummy'')]\<rparr>,
          CXDel nm ''0-1''])
      else
        (Inr (Dir \<lparr>d_root = False, d_name = nm, d_t = ''stream'', d_entries = [], d_names = {}\<rparr>),
         s2,
         [CXAdd \<lparr>xa_Stream = nm, xa_ID = ''0-1'', xa_Values = [(''blob'', ''dummy'')]\<rparr>,
          CXDel nm ''0-1'']))"
  using assms by (simp add: Mkdir_def tracing_XAdd tracing_XDel zero_redisDir_def)

theorem Mkdir_protocol_witness:
  "Mkdir (tracing refStore) Root ''events'' (\<lparr>kv = [], faults = []\<rparr>, []) =
     (Inr (Dir \<lparr>d_root = False, d_name = ''events'', d_t = ''stream'', d_entries = [], d_names = {}\<rparr>),
      \<lparr>kv = [(''events'', VStream [] (0, 1))], faults = []\<rparr>,
      [CXAdd \<lparr>xa_Stream = ''events'', xa_ID = ''0-1'', xa_Values = [(''blob'', ''dummy'')]\<rparr>,
       CXDel ''events'' ''0-1''])
   \<and> Mkdir (tracing refStore) Root ''events'' (\<lparr>kv = [], faults = [False, True]\<rparr>, []) =
     (Inl EIO,
      \<lparr>kv = [(''events'', VStream [\<lparr>xm_ID = ''0-1'', xm_Values = [(''blob'', ''dummy'')]\<rparr>] (0, 1))],
       faults = []\<rparr>,
      [CXAdd \<lparr>xa_Stream = ''events'', xa_ID = ''0-1'', xa_Values = [(''blob'', ''dummy'')]\<rparr>,
       CXDel ''events'' ''0-1''])"
proof -
  have a1: "gXAdd refStore \<lparr>xa_Stream = ''events'', xa_ID = ''0-1'', xa_Values = [(''blob'', ''dummy'')]\<rparr>
              \<lparr>kv = [], faults = []\<rparr>
            = ((''0-1'', None),
               \<lparr>kv = [(''events'', VStream [\<lparr>xm_ID = ''0-1'', xm_Values = [(''blob'', ''dummy'')]\<rparr>] (0, 1))],
                faults = []\<rparr>)"
    by code_simp
  have d1: "gXDel refStore ''events'' ''0-1''
              \<lparr>kv = [(''events'', VStream [\<lparr>xm_ID = ''0-1'', xm_Values = [(''blob'', ''dummy'')]\<rparr>] (0, 1))],
               faults = []\<rparr>
            = ((1, None), \<lparr>kv = [(''events'', VStream [] (0, 1))], faults = []\<rparr>)"
    by code_simp
  have a2: "gXAdd refStore \<lparr>xa_Stream = ''events'', xa_ID = ''0-1'', xa_Values = [(''blob'', ''dummy'')]\<rparr>
              \<lparr>kv = [], faults = [False, True]\<rparr>
            = ((''0-1'', None),
               \<lparr>kv = [(''events'', VStream [\<lparr>xm_ID = ''0-1'', xm_Values = [(''blob'', ''dummy'')]\<rparr>] (0, 1))],
                faults = [True]\<rparr>)"
    by code_simp
  have d2: "gXDel refStore ''events'' ''0-1''
              \<lparr>kv = [(''events'', VStream [\<lparr>xm_ID = ''0-1'', xm_Values = [(''blob'', ''dummy'')]\<rparr>] (0, 1))],
               faults = [True]\<rparr>
            = ((0, Some RedisFailure),
               \<lparr>kv = [(''events'', VStream [\<lparr>xm_ID = ''0-1'', xm_Values = [(''blob'', ''dummy'')]\<rparr>] (0, 1))],
                faults = []\<rparr>)"
    by code_simp
  show ?thesis
    using Mkdir_protocol [OF a1 d1, of Root] Mkdir_protocol [OF a2 d2, of Root] by simp
qed

text \<open>
  C10. Whatever the directory node the creation is invoked on, root or stream,
  every command it issues (there is at least one) addresses the key that is
  exactly the requested name, and the outcome is the same as on any other
  directory node: the parent's name is not part of the key.
\<close>

theorem Mkdir_targets_requested_name:
  assumes "Mkdir (tracing g) d nm (s, []) = (r, s', log)"
  shows "log \<noteq> [] \<and> (\<forall>c \<in> set log. target c = nm)
         \<and> Mkdir (tracing g) d' nm (s, []) = (r, s', log)"
proof -
  have "log = snd (snd (Mkdir (tracing g) d nm (s, [])))"
    using assms by simp
  with Mkdir_trace [of g d nm s]
  have "log \<noteq> [] \<and> (\<forall>c \<in> set log. target c = nm)"
    by auto
  moreover have "Mkdir (tracing g) d' nm (s, []) = (r, s', log)"
    using assms Mkdir_any_dir [of "tracing g" d' nm "(s, [])" d] by simp
  ultimately show ?thesis by simp
qed

theorem Mkdir_targets_requested_name_witness:
  "Mkdir (tracing refStore) (zero_redisDir\<lparr>d_name := ''s'', d_t := ''stream''\<rparr>) ''events''
     (\<lparr>kv = [(''s'', VStream [] (0, 1))], faults = []\<rparr>, []) =
     (Inr (Dir \<lparr>d_root = False, d_name = ''events'', d_t = ''stream'', d_entries = [], d_names = {}\<rparr>),
      \<lparr>kv = [(''s'', VStream [] (0, 1)), (''events'', VStream [] (0, 1))], faults = []\<rparr>,
      [CXAdd \<lparr>xa_Stream = ''events'', xa_ID = ''0-1'', xa_Values = [(''blob'', ''dummy'')]\<rparr>,
       CXDel ''events'' ''0-1''])
   \<and> target (CXAdd \<lparr>xa_Stream = ''events'', xa_ID = ''0-1'', xa_Values = [(''blob'', ''dummy'')]\<rparr>)
       = ''events''
   \<and> target (CXDel ''events'' ''0-1'') = ''events''
   \<and> Mkdir (tracing refStore) Root ''events''
     (\<lparr>kv = [(''s'', VStream [] (0, 1))], faults = []\<rparr>, []) =
     (Inr (Dir \<lparr>d_root = False, d_name = ''events'', d_t = ''stream'', d_entries = [], d_names = {}\<rparr>),
      \<lparr>kv = [(''s'', VStream [] (0, 1)), (''events'', VStream [] (0, 1))], faults = []\<rparr>,
      [CXAdd \<lparr>xa_Stream = ''events'', xa_ID = ''0-1'', xa_Values = [(''blob'', ''dummy'')]\<rparr>,
       CXDel ''events'' ''0-1''])"
proof -
  have m: "Mkdir (tracing refStore) (zero_redisDir\<lparr>d_name := ''s'', d_t := ''stream''\<rparr>) ''events''
     (\<lparr>kv = [(''s'', VStream [] (0, 1))], faults = []\<rparr>, []) =
     (Inr (Dir \<lparr>d_root = False, d_name = ''events'', d_t = ''stream'', d_entries = [], d_names = {}\<rparr>),
      \<lparr>kv = [(''s'', VStream [] (0, 1)), (''events'', VStream [] (0, 1))], faults = []\<rparr>,
      [CXAdd \<lparr>xa_Stream = ''events'', xa_ID = ''0-1'', xa_Values = [(''blob'', ''dummy'')]\<rparr>,
       CXDel ''events'' ''0-1''])"
    by code_simp
  show ?thesis
    using m Mkdir_targets_requested_name [OF m, of Root] by simp
qed

subsection \<open>Opening and flushing\<close>

text \<open>
  C3 (the code departs from the claim). The claim: after an open with a
  read-only request that is not a directory request, a flush issues no scalar
  set and no stream append for the node. The code stores \<open>false\<close> in the
  read-only flag under exactly that test, and nothing else ever sets the flag,
  so the flush is not skipped. Here the key "a" holds "x"; the node comes from
  a lookup, is opened with the flags \<open>O_RDONLY\<close> and is flushed with nothing
  written: the flush issues \<open>SET a ""\<close>, and the key is left empty.
\<close>

theorem readonly_Open_then_Flush_overwrites:
  "Lookup refStore Root ''a'' \<lparr>kv = [(''a'', VString ''x'')], faults = []\<rparr> =
     (Inr (File \<lparr>f_name = ''a'', f_parent = [], f_size = 0, f_rb = [], f_wb = [], f_ro = False\<rparr>),
      \<lparr>kv = [(''a'', VString ''x'')], faults = []\<rparr>)
   \<and> IsReadOnly 0
   \<and> Open \<lparr>f_name = ''a'', f_parent = [], f_size = 0, f_rb = [], f_wb = [], f_ro = False\<rparr>
        \<lparr>or_Dir = False, or_Flags = 0\<rparr> 0 =
     (\<lparr>f_name = ''a'', f_parent = [], f_size = 0, f_rb = [], f_wb = [], f_ro = False\<rparr>, 1)
   \<and> Flush (tracing refStore)
        \<lparr>f_name = ''a'', f_parent = [], f_size = 0, f_rb = [], f_wb = [], f_ro = False\<rparr>
        (\<lparr>kv = [(''a'', VString ''x'')], faults = []\<rparr>, []) =
     ((None, \<lparr>f_name = ''a'', f_parent = [], f_size = 0, f_rb = [], f_wb = [], f_ro = False\<rparr>),
      \<lparr>kv = [(''a'', VString [])], faults = []\<rparr>,
      [CSet ''a'' [] 0])"
  by code_simp

text \<open>
  C6. A flush of a file that is not read-only issues exactly one command. With
  a stream parent it is one append to the parent stream, with the identifier
  made of the file's name and the suffix "-0" and the buffered bytes as the
  single field "blob"; without a stream parent it is one set of the key named
  as the file to the buffered bytes. If the command succeeds the result is nil
  and the write buffer is emptied; if it fails the result is \<open>EIO\<close> and the
  file, its write buffer included, is unchanged.
\<close>

theorem Flush_protocol:
  assumes "\<not> f_ro f"
      and "a = \<lparr>xa_Stream = f_parent f, xa_ID = f_name f @ ''-0'', xa_Values = [(''blob'', f_wb f)]\<rparr>"
      and "gXAdd g a s = ((r, e), s1)"
      and "gSet g (f_name f) (f_wb f) 0 s = ((r', e'), s1')"
  shows "Flush (tracing g) f (s, []) =
     (if f_parent f \<noteq> [] then
        (if e = None then ((None, f\<lparr>f_wb := []\<rparr>), s1, [CXAdd a])
         else ((Some EIO, f), s1, [CXAdd a]))
      else
        (if e' = None then ((None, f\<lparr>f_wb := []\<rparr>), s1', [CSet (f_name f) (f_wb f) 0])
         else ((Some EIO, f), s1', [CSet (f_name f) (f_wb f) 0])))"
  using assms by (simp add: Flush_def tracing_XAdd tracing_Set)

theorem Flush_protocol_witness:
  "Flush (tracing refStore)
     \<lparr>f_name = ''5'', f_parent = ''s'', f_size = 0, f_rb = [], f_wb = ''abcd'', f_ro = False\<rparr>
     (\<lparr>kv = [(''s'', VStream [] (0, 1))], faults = [False, True]\<rparr>, []) =
     ((None, \<lparr>f_name = ''5'', f_parent = ''s'', f_size = 0, f_rb = [], f_wb = [], f_ro = False\<rparr>),
      \<lparr>kv = [(''s'', VStream [\<lparr>xm_ID = ''5-0'', xm_Values = [(''blob'', ''abcd'')]\<rparr>] (5, 0))],
       faults = [True]\<rparr>,
      [CXAdd \<lparr>xa_Stream = ''s'', xa_ID = ''5-0'', xa_Values = [(''blob'', ''abcd'')]\<rparr>])
   \<and> Flush (tracing refStore)
     \<lparr>f_name = ''k'', f_parent = [], f_size = 0, f_rb = [], f_wb = ''abcd'', f_ro = False\<rparr>
     (\<lparr>kv = [(''k'', VList [''x''])], faults = [True]\<rparr>, []) =
     ((Some EIO, \<lparr>f_name = ''k'', f_parent = [], f_size = 0, f_rb = [], f_wb = ''abcd'', f_ro = False\<rparr>),
      \<lparr>kv = [(''k'', VList [''x''])], faults = []\<rparr>,
      [CSet ''k'' ''abcd'' 0])"
proof -
  let ?f = "\<lparr>f_name = ''5'', f_parent = ''s'', f_size = 0, f_rb = [], f_wb = ''abcd'', f_ro = False\<rparr>"
  let ?k = "\<lparr>f_name = ''k'', f_parent = [], f_size = 0, f_rb = [], f_wb = ''abcd'', f_ro = False\<rparr>"
  let ?s = "\<lparr>kv = [(''s'', VStream [] (0, 1))], faults = [False, True]\<rparr>"
  let ?t = "\<lparr>kv = [(''k'', VList [''x''])], faults = [True]\<rparr>"
  have f: "\<not> f_ro ?f" and k: "\<not> f_ro ?k"
    by simp_all
  have af: "\<lparr>xa_Stream = ''s'', xa_ID = ''5-0'', xa_Values = [(''blob'', ''abcd'')]\<rparr>
        = \<lparr>xa_Stream = f_parent ?f, xa_ID = f_name ?f @ ''-0'', xa_Values = [(''blob'', f_wb ?f)]\<rparr>"
    by simp
  have ak: "\<lparr>xa_Stream = [], xa_ID = ''k-0'', xa_Values = [(''blob'', ''abcd'')]\<rparr>
        = \<lparr>xa_Stream = f_parent ?k, xa_ID = f_name ?k @ ''-0'', xa_Values = [(''blob'', f_wb ?k)]\<rparr>"
    by simp
  have xf: "gXAdd refStore \<lparr>xa_Stream = ''s'', xa_ID = ''5-0'', xa_Values = [(''blob'', ''abcd'')]\<rparr> ?s
        = ((''5-0'', None),
           \<lparr>kv = [(''s'', VStream [\<lparr>xm_ID = ''5-0'', xm_Values = [(''blob'', ''abcd'')]\<rparr>] (5, 0))],
            faults = [True]\<rparr>)"
    by code_simp
  have sf: "gSet refStore (f_name ?f) (f_wb ?f) 0 ?s
        = ((''OK'', None), \<lparr>kv = [(''s'', VStream [] (0, 1)), (''5'', VString ''abcd'')], faults = [True]\<rparr>)"
    by code_simp
  have xk: "gXAdd refStore \<lparr>xa_Stream = [], xa_ID = ''k-0'', xa_Values = [(''blob'', ''abcd'')]\<rparr> ?t
        = (([], Some RedisFailure), \<lparr>kv = [(''k'', VList [''x''])], faults = []\<rparr>)"
    by code_simp
  have sk: "gSet refStore (f_name ?k) (f_wb ?k) 0 ?t
        = (([], Some RedisFailure), \<lparr>kv = [(''k'', VList [''x''])], faults = []\<rparr>)"
    by code_simp
  show ?thesis
    using Flush_protocol [OF f af xf sf] Flush_protocol [OF k ak xk sk] by simp
qed

subsection \<open>Reading a list\<close>

lemma join_nl_Cons: "join_nl (x # xs) = (if xs = [] then x else x @ newline # join_nl xs)"
  by (cases xs) simp_all

lemma list_loop_join:
  "i \<le> length vs \<Longrightarrow> list_loop vs i b = b @ join_nl (drop i vs)"
proof (induction "length vs - i" arbitrary: i b)
  case 0
  then show ?case
    by (subst list_loop.simps) simp
next
  case (Suc n)
  then have i: "i < length vs" and n: "n = length vs - Suc i"
    by simp_all
  have d: "drop i vs = vs ! i # drop (Suc i) vs"
    using i by (simp add: Cons_nth_drop_Suc)
  have e: "(drop (Suc i) vs = []) = (int i = int (length vs) - 1)"
    using i by auto
  have "list_loop vs (Suc i) b' = b' @ join_nl (drop (Suc i) vs)" for b'
    using Suc.hyps(1) [OF n] i by simp
  then show ?case
    using i e by (subst list_loop.simps) (simp add: d join_nl_Cons Let_def)
qed

text \<open>
  C7. If the store reports the type "list" for the file's key and the range
  query returns the elements \<open>vs\<close>, reading the file returns the elements
  joined by one newline between consecutive elements, without a trailing
  newline, and caches these bytes and their length in the node. For the
  elements "a", "b", "c" the bytes are "a", newline, "b", newline, "c".
\<close>

theorem ReadAll_list:
  assumes "gType g (f_name f) s = ((''list'', None), s1)"
      and "gLRange g (f_name f) 0 (- 1) s1 = ((vs, None), s2)"
  shows "ReadAll g jm f s =
     ((Inr (join_nl vs), f\<lparr>f_rb := join_nl vs, f_size := of_nat (length (join_nl vs))\<rparr>), s2)"
  using assms by (simp add: ReadAll_def reloadFile_def reloadFile_end_def list_loop_join)

theorem ReadAll_list_witness:
  "ReadAll refStore no_json (zero_redisFile\<lparr>f_name := ''l''\<rparr>)
     \<lparr>kv = [(''l'', VList [''a'', ''b'', ''c''])], faults = []\<rparr> =
     ((Inr ''a\<newline>b\<newline>c'',
       \<lparr>f_name = ''l'', f_parent = [], f_size = 5, f_rb = ''a\<newline>b\<newline>c'', f_wb = [], f_ro = False\<rparr>),
      \<lparr>kv = [(''l'', VList [''a'', ''b'', ''c''])], faults = []\<rparr>)"
proof -
  let ?st = "\<lparr>kv = [(''l'', VList [''a'', ''b'', ''c''])], faults = []\<rparr>"
  have t: "gType refStore (f_name (zero_redisFile\<lparr>f_name := ''l''\<rparr>)) ?st = ((''list'', None), ?st)"
    by code_simp
  have r: "gLRange refStore (f_name (zero_redisFile\<lparr>f_name := ''l''\<rparr>)) 0 (- 1) ?st
             = (([''a'', ''b'', ''c''], None), ?st)"
    by code_simp
  show ?thesis
    using ReadAll_list [OF t r, of no_json] by (simp add: zero_redisFile_def newline_def)
qed

subsection \<open>Writing, flushing and reading back\<close>

text \<open>
  The read-only flag is false in every node a lookup or a create returns, and
  no operation changes it to true.
\<close>

lemma f_ro_never_set:
  "Lookup g d nm s = (Inr (File f), s') \<Longrightarrow> \<not> f_ro f"
  "\<not> f_ro (fst (Create d nm fl))"
  "f_ro (fst (Open f req fl)) \<Longrightarrow> f_ro f"
  "f_ro (fst (Write f w)) = f_ro f"
  "f_ro (snd (fst (Flush g f s))) = f_ro f"
  "f_ro (snd (fst (reloadFile g jm f s))) = f_ro f"
  "f_ro (snd (fst (ReadAll g jm f s))) = f_ro f"
  by (auto simp: Lookup_def Create_def Open_def Write_def Flush_def reloadFile_def
      reloadFile_end_def ReadAll_def zero_redisFile_def Let_def
      split: prod.splits if_splits option.splits)

lemma writes_fields:
  "f_wb (writes f ws) = f_wb f @ concat ws \<and> f_name (writes f ws) = f_name f
   \<and> f_parent (writes f ws) = f_parent f \<and> f_ro (writes f ws) = f_ro f"
proof (induction ws arbitrary: f)
  case Nil
  then show ?case by (simp add: writes_def)
next
  case (Cons w ws)
  have "writes f (w # ws) = writes (fst (Write f w)) ws"
    by (simp add: writes_def)
  then show ?case
    using Cons [of "fst (Write f w)"] by (simp add: Write_def)
qed

lemma map_of_put: "map_of (put k v ps) k = Some v"
  by (induction ps) auto

lemma attempt_no_fault:
  assumes "faults st = [] \<or> \<not> hd (faults st)"
  shows "attempt z run st = run (st\<lparr>faults := tl (faults st)\<rparr>)"
proof (cases "faults st")
  case Nil
  then have e: "st\<lparr>faults := tl (faults st)\<rparr> = st"
    by (cases st) simp
  have "attempt z run st = run st"
    using Nil by (simp add: attempt_def)
  then show ?thesis
    by (simp only: e)
next
  case (Cons b bs)
  then show ?thesis
    using assms by (simp add: attempt_def)
qed

lemma Set_ok:
  assumes "gSet refStore k v e st = ((r, None), st1)"
  shows "map_of (kv st1) k = Some (VString v)"
  using assms
  by (auto simp: refStore_def attempt_def map_of_put split: list.splits if_splits)

lemma Type_Get_string:
  assumes "map_of (kv st) k = Some (VString v)" and "True \<notin> set (take 2 (faults st))"
  shows "\<exists>st1 st2. gType refStore k st = ((''string'', None), st1)
           \<and> gGet refStore k st1 = ((v, None), st2)"
proof -
  have a: "faults st = [] \<or> \<not> hd (faults st)"
    using assms(2) by (cases "faults st") auto
  let ?st1 = "st\<lparr>faults := tl (faults st)\<rparr>"
  have b: "faults ?st1 = [] \<or> \<not> hd (faults ?st1)"
    using assms(2) by (cases "faults st"; cases "tl (faults st)") auto
  have "gType refStore k st = ((''string'', None), ?st1)"
    using assms(1) by (simp add: refStore_def attempt_no_fault [OF a] type_name_def)
  moreover have "gGet refStore k ?st1 = ((v, None), ?st1\<lparr>faults := tl (faults ?st1)\<rparr>)"
    using assms(1) by (simp add: refStore_def attempt_no_fault [OF b])
  ultimately show ?thesis by blast
qed

text \<open>
  C1. Take a file node without a stream parent (and not read-only, as every
  node is), a sequence of write calls with the payloads \<open>ws\<close> and then a flush
  that succeeds on the reference store. If the connection does not fail during
  the two queries of the read, reading the file returns the bytes the write
  buffer held before the calls followed by the payloads in call order; for a
  node whose buffer was empty (one fresh from a lookup or a create, or after a
  successful flush) these are exactly the payloads concatenated in call order.
\<close>

theorem Flush_then_ReadAll:
  assumes "f_parent f = []" and "\<not> f_ro f"
      and "Flush refStore (writes f ws) st = ((None, f1), st1)"
      and "True \<notin> set (take 2 (faults st1))"
  shows "fst (fst (ReadAll refStore jm f1 st1)) = Inr (f_wb f @ concat ws)
     \<and> (f_wb f = [] \<longrightarrow> fst (fst (ReadAll refStore jm f1 st1)) = Inr (concat ws))"
proof -
  let ?f = "writes f ws"
  let ?b = "f_wb f @ concat ws"
  have w: "f_wb ?f = ?b" "f_name ?f = f_name f" "f_parent ?f = []" "\<not> f_ro ?f"
    using assms(1,2) writes_fields [of f ws] by simp_all
  obtain r e s' where s: "gSet refStore (f_name f) ?b 0 st = ((r, e), s')"
    by (metis surj_pair)
  have fl: "Flush refStore ?f st =
      (if e \<noteq> None then ((Some EIO, ?f), s') else ((None, ?f\<lparr>f_wb := []\<rparr>), s'))"
    using w s by (simp add: Flush_def)
  have e: "e = None" and s1: "s' = st1" and f1: "f1 = ?f\<lparr>f_wb := []\<rparr>"
    using fl assms(3) by (auto split: if_splits)
  have "map_of (kv st1) (f_name f) = Some (VString ?b)"
    using Set_ok s e s1 by blast
  from Type_Get_string [OF this assms(4)]
  obtain t1 t2 where t: "gType refStore (f_name f) st1 = ((''string'', None), t1)"
    and g: "gGet refStore (f_name f) t1 = ((?b, None), t2)"
    by blast
  have "f_name f1 = f_name f"
    using f1 w by simp
  then have "fst (fst (ReadAll refStore jm f1 st1)) = Inr ?b"
    using t g by (simp add: ReadAll_def reloadFile_def reloadFile_end_def)
  then show ?thesis
    by simp
qed

theorem Flush_then_ReadAll_witness:
  "Flush refStore (writes (fst (Create Root ''k'' 0)) [''foo'', ''bar''])
     \<lparr>kv = [(''k'', VList [''old''])], faults = []\<rparr> =
     ((None, \<lparr>f_name = ''k'', f_parent = [], f_size = 0, f_rb = [], f_wb = [], f_ro = False\<rparr>),
      \<lparr>kv = [(''k'', VString ''foobar'')], faults = []\<rparr>)
   \<and> fst (fst (ReadAll refStore no_json
        \<lparr>f_name = ''k'', f_parent = [], f_size = 0, f_rb = [], f_wb = [], f_ro = False\<rparr>
        \<lparr>kv = [(''k'', VString ''foobar'')], faults = []\<rparr>)) = Inr ''foobar''"
proof -
  let ?f = "fst (Create Root ''k'' 0)"
  have p: "f_parent ?f = []" and r: "\<not> f_ro ?f" and b: "f_wb ?f = []"
    by (simp_all add: Create_def Root_def zero_redisFile_def zero_redisDir_def)
  have c: "concat [''foo'', ''bar''] = ''foobar''"
    by simp
  have fl: "Flush refStore (writes ?f [''foo'', ''bar''])
     \<lparr>kv = [(''k'', VList [''old''])], faults = []\<rparr> =
     ((None, \<lparr>f_name = ''k'', f_parent = [], f_size = 0, f_rb = [], f_wb = [], f_ro = False\<rparr>),
      \<lparr>kv = [(''k'', VString ''foobar'')], faults = []\<rparr>)"
    by code_simp
  have n: "True \<notin> set (take 2 (faults \<lparr>kv = [(''k'', VString ''foobar'')], faults = []\<rparr>))"
    by simp
  show ?thesis
    using fl b c Flush_then_ReadAll [OF p r fl n, of no_json] by simp
qed

end
